theory Spec2Isabelle
  imports Main
begin

section \<open>Data model (notes/models.py)\<close>

text \<open>
  The four Django models are records; a table is the list of its rows in insertion order.
  \<^item> \<open>NotesUser\<close> has the explicit primary key \<open>userslug\<close>; a foreign key to a user holds
    that slug.
  \<^item> \<open>Note\<close>, \<open>NoteHistory\<close> and \<open>SharedNote\<close> have Django's implicit auto-increment
    key. No operation of the application deletes a row, so the key of a row is its position
    in the table, and a foreign key to a note holds that position.
  \<^item> The many-to-many relation \<open>shared_with\<close> is the list of the recipients' slugs, without
    repetition.
  \<^item> The credential hash of a user is opaque and read by no modelled operation; it is left out.
  Strings are compared as Python compares them (case-sensitively).
\<close>

record datetime =
  dt_year :: nat
  dt_month :: nat
  dt_day :: nat
  dt_hour :: nat
  dt_minute :: nat

record NotesUser =
  userslug :: string
  username :: string
  email :: string
  first_name :: string
  last_name :: string

record Note =
  slug :: string
  created_by_user :: string
  last_modified_by_user :: string
  content :: string
  created_at :: datetime

text \<open>
  A foreign key \<open>note\<close> is stored by Django in the attribute \<open>note_id\<close>, which is the name
  used for \<open>NoteHistory\<close>; the one of \<open>SharedNote\<close> is \<open>shared_note_id\<close>, since two records
  cannot share a field name.
\<close>

record SharedNote =
  shared_note_id :: nat
  shared_by :: string
  shared_with :: "string list"
  shared_at :: datetime

record NoteHistory =
  note_id :: nat
  original_content :: string
  updated_content :: string
  updated_by_user :: string
  timestamp :: datetime

record db =
  NotesUser_objects :: "NotesUser list"
  Note_objects :: "Note list"
  NoteHistory_objects :: "NoteHistory list"
  SharedNote_objects :: "SharedNote list"

text \<open>
  What a call takes from outside the program: the 32 hexadecimal digits that
  \<^verbatim>\<open>uuid.uuid4().hex\<close> returns, and the current time.
\<close>

record env =
  uuid4_hex :: string
  now :: datetime

text \<open>The exceptions the code raises or lets through.\<close>

datatype exn =
    ValidationError "string list"
  | DoesNotExist
  | MultipleObjectsReturned
  | IntegrityError
  | ValueError
  | Http404

section \<open>Queries\<close>

text \<open>\<^verbatim>\<open>NotesUser.objects.filter(userslug=value)\<close>, its \<^verbatim>\<open>.exists()\<close>, \<^verbatim>\<open>.first()\<close>, and
  \<^verbatim>\<open>NotesUser.objects.get(userslug=value)\<close>.\<close>

definition NotesUser_filter_userslug :: "db \<Rightarrow> string \<Rightarrow> NotesUser list" where
  "NotesUser_filter_userslug s v = filter (\<lambda>u. userslug u = v) (NotesUser_objects s)"

definition exists :: "'a list \<Rightarrow> bool" where
  "exists q = (q \<noteq> [])"

definition first :: "'a list \<Rightarrow> 'a option" where
  "first q = (case q of [] \<Rightarrow> None | x # _ \<Rightarrow> Some x)"

definition objects_get :: "'a list \<Rightarrow> exn + 'a" where
  "objects_get q =
     (case q of [] \<Rightarrow> Inl DoesNotExist | [x] \<Rightarrow> Inr x | _ \<Rightarrow> Inl MultipleObjectsReturned)"

text \<open>\<^verbatim>\<open>Note.objects.get(slug=value)\<close>: the row together with its primary key.\<close>

definition Note_filter_slug :: "db \<Rightarrow> string \<Rightarrow> (nat \<times> Note) list" where
  "Note_filter_slug s v = filter (\<lambda>(i, n). slug n = v) (enumerate 0 (Note_objects s))"

section \<open>Saving a note (Note.save, models.py 100-106)\<close>

text \<open>
  \<open>Note_save e s pk n\<close>: \<open>pk = None\<close> is an instance that was never saved (INSERT, with
  \<open>created_at\<close> set by \<open>auto_now_add\<close>); \<open>pk = Some i\<close> is an instance read from row \<open>i\<close>
  (UPDATE of that row). A slug is generated when the instance has none. The column \<open>slug\<close> is
  unique: a write that would give two rows the same slug raises IntegrityError. An instance
  whose key is beyond the table matches no row in the UPDATE, and Django inserts it.
\<close>

definition generate_slug :: "env \<Rightarrow> Note \<Rightarrow> Note" where
  "generate_slug e n = (if slug n = [] then n\<lparr>slug := take 9 (uuid4_hex e)\<rparr> else n)"

definition Note_save :: "env \<Rightarrow> db \<Rightarrow> nat option \<Rightarrow> Note \<Rightarrow> exn + ((nat \<times> Note) \<times> db)" where
  "Note_save e s pk n =
     (let n' = generate_slug e n;
          insert_row = (let r = n'\<lparr>created_at := now e\<rparr> in
             if \<exists>m \<in> set (Note_objects s). slug m = slug r then Inl IntegrityError
             else Inr ((length (Note_objects s), r), s\<lparr>Note_objects := Note_objects s @ [r]\<rparr>))
      in case pk of
           None \<Rightarrow> insert_row
         | Some i \<Rightarrow>
             if i < length (Note_objects s) then
               (if \<exists>j \<in> set [0..<length (Note_objects s)]. j \<noteq> i \<and> slug (Note_objects s ! j) = slug n'
                then Inl IntegrityError
                else Inr ((i, n'), s\<lparr>Note_objects := (Note_objects s)[i := n']\<rparr>))
             else insert_row)"

section \<open>Updating a note (NoteViewSerializer.update, serializers.py 238-268)\<close>

text \<open>
  \<open>instance\<close> is the note the view read (key and row); \<open>content_data\<close> is
  \<^verbatim>\<open>validated_data.get('content', ...)\<close>, \<open>None\<close> when the key is absent;
  \<open>modified_user_slug\<close> is \<^verbatim>\<open>validated_data["last_modified_by_user"]["userslug"]\<close>.
  (\<^verbatim>\<open>first()\<close> of a query that \<^verbatim>\<open>exists()\<close> is never None; were it None, saving the
  note with no last modifier would violate the NOT NULL constraint of the column.)
\<close>

definition NoteHistory_objects_create ::
  "env \<Rightarrow> db \<Rightarrow> nat \<Rightarrow> string \<Rightarrow> string \<Rightarrow> string \<Rightarrow> db" where
  "NoteHistory_objects_create e s pk original updated by_user =
     s\<lparr>NoteHistory_objects := NoteHistory_objects s @
         [\<lparr>note_id = pk, original_content = original, updated_content = updated,
           updated_by_user = by_user, timestamp = now e\<rparr>]\<rparr>"

definition NoteViewSerializer_update ::
  "env \<Rightarrow> db \<Rightarrow> nat \<times> Note \<Rightarrow> string option \<Rightarrow> string \<Rightarrow> (exn + (nat \<times> Note)) \<times> db" where
  "NoteViewSerializer_update e s instance content_data modified_user_slug =
     (let modified_user = NotesUser_filter_userslug s modified_user_slug in
      if exists modified_user then
        (case first modified_user of
           None \<Rightarrow> (Inl IntegrityError, s)
         | Some u \<Rightarrow>
             let original = content (snd instance);
                 changed = (snd instance)
                   \<lparr>content := (case content_data of Some c \<Rightarrow> c | None \<Rightarrow> content (snd instance)),
                    last_modified_by_user := userslug u\<rparr>
             in (case Note_save e s (Some (fst instance)) changed of
                   Inl ex \<Rightarrow> (Inl ex, s)
                 | Inr (saved, s1) \<Rightarrow>
                     (Inr saved,
                      NoteHistory_objects_create e s1 (fst saved) original (content (snd saved))
                        (userslug u))))
      else (Inl (ValidationError [''Invalid user slug provided.'']), s))"

section \<open>Registration (UserRegistrationSerializer, serializers.py 35-78)\<close>

text \<open>
  Python's \<^verbatim>\<open>str.isspace\<close>, \<^verbatim>\<open>str.strip\<close> and \<^verbatim>\<open>str.lower\<close>, on ASCII characters (the strings of
  this model are ASCII).
\<close>

definition isspace :: "char \<Rightarrow> bool" where
  "isspace c = (let k = (of_char c :: nat) in (9 \<le> k \<and> k \<le> 13) \<or> (28 \<le> k \<and> k \<le> 32))"

definition strip :: "string \<Rightarrow> string" where
  "strip v = rev (dropWhile isspace (rev (dropWhile isspace v)))"

definition lower :: "string \<Rightarrow> string" where
  "lower v = map (\<lambda>c. let k = (of_char c :: nat) in
                        if 65 \<le> k \<and> k \<le> 90 then char_of (k + 32) else c) v"

text \<open>
  \<^verbatim>\<open>BaseUserManager.normalize_email\<close>, which \<^verbatim>\<open>create_user\<close> applies to the address it stores:
  the address is stripped and split at its last \<open>@\<close>, and the domain part is lower-cased; an
  address without \<open>@\<close> is kept as it is.
\<close>

definition normalize_email :: "string \<Rightarrow> string" where
  "normalize_email v =
     (let t = strip v in
      if CHR ''@'' \<in> set t then
        (let domain_part = rev (takeWhile (\<lambda>c. c \<noteq> CHR ''@'') (rev t));
             email_name = rev (drop 1 (dropWhile (\<lambda>c. c \<noteq> CHR ''@'') (rev t)))
         in email_name @ ''@'' @ lower domain_part)
      else v)"

text \<open>
  \<^verbatim>\<open>NotesUser.save\<close> (models.py 40-46): a slug of 10 characters is generated when the user has
  none. The slug is the primary key, so Django updates the row that has it and inserts a row
  when there is none. \<open>username\<close> (declared unique by \<open>AbstractUser\<close>) and \<open>email\<close> are unique
  columns.
\<close>

definition NotesUser_save :: "env \<Rightarrow> db \<Rightarrow> NotesUser \<Rightarrow> exn + (NotesUser \<times> db)" where
  "NotesUser_save e s u =
     (let u' = (if userslug u = [] then u\<lparr>userslug := take 10 (uuid4_hex e)\<rparr> else u) in
      if \<exists>v \<in> set (NotesUser_objects s).
           userslug v \<noteq> userslug u' \<and> (username v = username u' \<or> email v = email u')
      then Inl IntegrityError
      else if \<exists>v \<in> set (NotesUser_objects s). userslug v = userslug u'
      then Inr (u', s\<lparr>NotesUser_objects :=
                  map (\<lambda>v. if userslug v = userslug u' then u' else v) (NotesUser_objects s)\<rparr>)
      else Inr (u', s\<lparr>NotesUser_objects := NotesUser_objects s @ [u']\<rparr>))"

text \<open>
  \<^verbatim>\<open>UserManager.create_user(username, email, password, **extra_fields)\<close>: the username must be
  set, the address is normalised, the password is hashed (not modelled), the user is saved.
  A name that is not given is the empty string.
\<close>

record registration_fields =
  reg_email :: string
  reg_password :: string
  reg_first_name :: "string option"
  reg_last_name :: "string option"

record create_user_kwargs = registration_fields +
  reg_username :: string

definition create_user :: "env \<Rightarrow> db \<Rightarrow> create_user_kwargs \<Rightarrow> (exn + NotesUser) \<times> db" where
  "create_user e s kw =
     (if reg_username kw = [] then (Inl ValueError, s)
      else (case NotesUser_save e s
                   \<lparr>userslug = [], username = reg_username kw,
                    email = normalize_email (reg_email kw),
                    first_name = (case reg_first_name kw of Some v \<Rightarrow> v | None \<Rightarrow> []),
                    last_name = (case reg_last_name kw of Some v \<Rightarrow> v | None \<Rightarrow> [])\<rparr> of
              Inl ex \<Rightarrow> (Inl ex, s)
            | Inr (u, s') \<Rightarrow> (Inr u, s')))"

definition validate_email :: "db \<Rightarrow> string \<Rightarrow> exn + string" where
  "validate_email s v =
     (if exists (filter (\<lambda>u. email u = v) (NotesUser_objects s))
      then Inl (ValidationError [''Email must be unique''])
      else Inr v)"

definition UserRegistrationSerializer_validate :: "registration_fields \<Rightarrow> create_user_kwargs" where
  "UserRegistrationSerializer_validate data =
     \<lparr>reg_email = reg_email data, reg_password = reg_password data,
      reg_first_name = reg_first_name data, reg_last_name = reg_last_name data,
      reg_username = reg_email data\<rparr>"

definition UserRegistrationSerializer_create ::
  "env \<Rightarrow> db \<Rightarrow> create_user_kwargs \<Rightarrow> (exn + NotesUser) \<times> db" where
  "UserRegistrationSerializer_create e s validated_data = create_user e s validated_data"

section \<open>Creating a note (NoteSerializer, serializers.py 161-195)\<close>

definition validate_user_slug :: "db \<Rightarrow> string \<Rightarrow> exn + string" where
  "validate_user_slug s v =
     (if \<not> exists (NotesUser_filter_userslug s v)
      then Inl (ValidationError [''User does not exist''])
      else Inr v)"

text \<open>\<^verbatim>\<open>Note.objects.create(...)\<close> builds the instance and saves it as a new row.\<close>

definition Note_objects_create ::
  "env \<Rightarrow> db \<Rightarrow> string \<Rightarrow> string \<Rightarrow> string \<Rightarrow> exn + ((nat \<times> Note) \<times> db)" where
  "Note_objects_create e s created_by c modified_by =
     Note_save e s None
       \<lparr>slug = [], created_by_user = created_by, last_modified_by_user = modified_by,
        content = c, created_at = now e\<rparr>"

definition NoteSerializer_create ::
  "env \<Rightarrow> db \<Rightarrow> string \<Rightarrow> string \<Rightarrow> (exn + (nat \<times> Note)) \<times> db" where
  "NoteSerializer_create e s user_slug content_data =
     (case objects_get (NotesUser_filter_userslug s user_slug) of
        Inl ex \<Rightarrow> (Inl ex, s)
      | Inr user \<Rightarrow>
          (case Note_objects_create e s (userslug user) content_data (userslug user) of
             Inl ex \<Rightarrow> (Inl ex, s)
           | Inr (created, s') \<Rightarrow> (Inr created, s')))"

section \<open>Sharing a note (SharedNoteSerializer.create, serializers.py 338-367)\<close>

text \<open>
  \<^verbatim>\<open>shared_with.add(user)\<close> puts the user into the relation unless it is there already. The row
  is created with no recipient, the loop adds the recipients that resolve, and nothing between
  the two can raise: the model stores the row once, with the recipients the loop has added.
\<close>

definition add_recipient :: "db \<Rightarrow> SharedNote \<Rightarrow> string \<Rightarrow> SharedNote" where
  "add_recipient s g v =
     (case first (NotesUser_filter_userslug s v) of
        Some user \<Rightarrow>
          (if userslug user \<in> set (shared_with g) then g
           else g\<lparr>shared_with := shared_with g @ [userslug user]\<rparr>)
      | None \<Rightarrow> g)"

definition SharedNoteSerializer_create ::
  "env \<Rightarrow> db \<Rightarrow> string \<Rightarrow> string \<Rightarrow> string list \<Rightarrow> (exn + (nat \<times> SharedNote)) \<times> db" where
  "SharedNoteSerializer_create e s note_slug shared_by_slug shared_with_slugs =
     (case objects_get (Note_filter_slug s note_slug) of
        Inl ex \<Rightarrow> (Inl ex, s)
      | Inr shared_note \<Rightarrow>
          (case objects_get (NotesUser_filter_userslug s shared_by_slug) of
             Inl ex \<Rightarrow> (Inl ex, s)
           | Inr sharer \<Rightarrow>
               (let shared_note_instance =
                      foldl (add_recipient s)
                        \<lparr>shared_note_id = fst shared_note, shared_by = userslug sharer,
                         shared_with = [], shared_at = now e\<rparr>
                        shared_with_slugs
                in (Inr (length (SharedNote_objects s), shared_note_instance),
                    s\<lparr>SharedNote_objects := SharedNote_objects s @ [shared_note_instance]\<rparr>))))"

section \<open>Request data: the declared serializer fields\<close>

text \<open>
  A field of the request body is \<open>Some\<close> string, or \<open>None\<close> when the key is absent. The fields
  are declared in serializers.py with the options \<^verbatim>\<open>required=True\<close> and nothing else, so the
  framework's defaults apply: a \<^verbatim>\<open>CharField\<close> strips the value, refuses a blank one
  (\<^verbatim>\<open>allow_blank=False\<close>) and refuses a null character; a \<^verbatim>\<open>SlugField\<close> is a \<^verbatim>\<open>CharField\<close> whose
  value consists of letters, digits, underscores and hyphens; a \<^verbatim>\<open>ListField\<close> accepts any
  list, the empty one too (\<^verbatim>\<open>allow_empty=True\<close>). A field reports by raising ValidationError.
\<close>

definition prohibit_null_characters :: "string \<Rightarrow> string list" where
  "prohibit_null_characters v =
     (if CHR 0x00 \<in> set v then [''Null characters are not allowed.''] else [])"

definition slug_char :: "char \<Rightarrow> bool" where
  "slug_char c =
     (let k = (of_char c :: nat) in
      (48 \<le> k \<and> k \<le> 57) \<or> (65 \<le> k \<and> k \<le> 90) \<or> (97 \<le> k \<and> k \<le> 122)
      \<or> c = CHR ''-'' \<or> c = CHR ''_'')"

definition slug_regex :: "string \<Rightarrow> string list" where
  "slug_regex v =
     (if list_all slug_char v then []
      else [''Enter a valid \"slug\" consisting of letters, numbers, underscores or hyphens.''])"

text \<open>
  \<^verbatim>\<open>CharField.run_validation\<close>: the blank test comes first, then the value is stripped and
  given to the validators of the field, whose messages are collected.
\<close>

definition run_validation :: "(string \<Rightarrow> string list) \<Rightarrow> string option \<Rightarrow> exn + string" where
  "run_validation validators data =
     (case data of
        None \<Rightarrow> Inl (ValidationError [''This field is required.''])
      | Some v \<Rightarrow>
          if v = [] \<or> strip v = [] then Inl (ValidationError [''This field may not be blank.''])
          else if validators (strip v) = [] then Inr (strip v)
          else Inl (ValidationError (validators (strip v))))"

definition CharField :: "string option \<Rightarrow> exn + string" where
  "CharField data = run_validation prohibit_null_characters data"

definition SlugField :: "string option \<Rightarrow> exn + string" where
  "SlugField data =
     run_validation (\<lambda>v. prohibit_null_characters v @ slug_regex v) data"

definition ListField :: "string list option \<Rightarrow> exn + string list" where
  "ListField data =
     (case data of
        None \<Rightarrow> Inl (ValidationError [''This field is required.''])
      | Some vs \<Rightarrow> Inr vs)"

text \<open>\<^verbatim>\<open>serializer.errors\<close>: the messages of the fields that failed, in the order of the fields.\<close>

definition errors_of :: "string \<Rightarrow> exn + 'a \<Rightarrow> (string \<times> string list) list" where
  "errors_of field r = (case r of Inl (ValidationError detail) \<Rightarrow> [(field, detail)] | _ \<Rightarrow> [])"

text \<open>
  \<^verbatim>\<open>is_valid()\<close> of the three serializers: each declared field is validated, then the
  serializer's own \<^verbatim>\<open>validate_<field>\<close> method where it has one.
\<close>

definition NoteSerializer_is_valid ::
  "db \<Rightarrow> string option \<Rightarrow> string option
     \<Rightarrow> (string \<times> string list) list + (string \<times> string)" where
  "NoteSerializer_is_valid s user_slug_field content_field =
     (let r1 = (case SlugField user_slug_field of
                  Inl ex \<Rightarrow> Inl ex | Inr v \<Rightarrow> validate_user_slug s v);
          r2 = CharField content_field
      in case (r1, r2) of
           (Inr u, Inr c) \<Rightarrow> Inr (u, c)
         | _ \<Rightarrow> Inl (errors_of ''user_slug'' r1 @ errors_of ''content'' r2))"

definition NoteViewSerializer_is_valid ::
  "string option \<Rightarrow> string option \<Rightarrow> string option
     \<Rightarrow> (string \<times> string list) list + (string \<times> string \<times> string)" where
  "NoteViewSerializer_is_valid slug_field content_field last_modified_field =
     (let r1 = SlugField slug_field;
          r2 = CharField content_field;
          r3 = SlugField last_modified_field
      in case (r1, r2, r3) of
           (Inr v, Inr c, Inr m) \<Rightarrow> Inr (v, c, m)
         | _ \<Rightarrow> Inl (errors_of ''slug'' r1 @ errors_of ''content'' r2
                      @ errors_of ''last_modified_by_user'' r3))"

definition SharedNoteSerializer_is_valid ::
  "string option \<Rightarrow> string option \<Rightarrow> string list option
     \<Rightarrow> (string \<times> string list) list + (string \<times> string \<times> string list)" where
  "SharedNoteSerializer_is_valid note_field shared_by_field shared_with_field =
     (let r1 = SlugField note_field;
          r2 = SlugField shared_by_field;
          r3 = ListField shared_with_field
      in case (r1, r2, r3) of
           (Inr n, Inr b, Inr w) \<Rightarrow> Inr (n, b, w)
         | _ \<Rightarrow> Inl (errors_of ''note'' r1 @ errors_of ''shared_by'' r2
                      @ errors_of ''shared_with'' r3))"

section \<open>Views (notes/views.py)\<close>

text \<open>
  A view answers with a response (status, the \<open>message\<close> of the body when it has one, and the
  rest of the body), or lets an exception through. The framework's exception handler turns a
  ValidationError into a 400 response and Http404 into a 404 response; every other exception
  leaves the view uncaught. The caller is authenticated (the permission check is the
  framework's).
\<close>

datatype payload =
    Errors "(string \<times> string list) list"
  | Detail "string list"
  | NotFound
  | Data "(string \<times> string) list"
  | SharedData string string "string list"
  | Listing "(string \<times> string) list list"

datatype outcome =
    Response nat "string option" payload
  | Uncaught exn

definition handle_exception :: "exn \<Rightarrow> outcome" where
  "handle_exception ex =
     (case ex of
        ValidationError detail \<Rightarrow> Response 400 None (Detail detail)
      | Http404 \<Rightarrow> Response 404 None NotFound
      | _ \<Rightarrow> Uncaught ex)"

text \<open>NoteCreateAPIView.create (views.py 161-180).\<close>

definition NoteCreateAPIView_create ::
  "env \<Rightarrow> db \<Rightarrow> string option \<Rightarrow> string option \<Rightarrow> outcome \<times> db" where
  "NoteCreateAPIView_create e s user_slug_field content_field =
     (case NoteSerializer_is_valid s user_slug_field content_field of
        Inl errs \<Rightarrow> (Response 400 (Some ''Failed to create Note !'') (Errors errs), s)
      | Inr (u, c) \<Rightarrow>
          (case NoteSerializer_create e s u c of
             (Inl ex, s') \<Rightarrow> (handle_exception ex, s')
           | (Inr created, s') \<Rightarrow>
               (Response 201 (Some ''Note created successfully :)'')
                  (Data [(''user_slug'', u), (''content'', c)]), s')))"

text \<open>
  NoteDetailAPIView.update (views.py 230-250). \<open>get_object\<close> is the framework's lookup by
  \<open>lookup_field = 'slug'\<close>, which answers 404 when no note has the slug of the URL.
\<close>

definition get_object :: "db \<Rightarrow> string \<Rightarrow> exn + (nat \<times> Note)" where
  "get_object s url_slug =
     (case objects_get (Note_filter_slug s url_slug) of
        Inl DoesNotExist \<Rightarrow> Inl Http404
      | r \<Rightarrow> r)"

definition NoteDetailAPIView_update ::
  "env \<Rightarrow> db \<Rightarrow> string \<Rightarrow> string option \<Rightarrow> string option \<Rightarrow> string option
     \<Rightarrow> outcome \<times> db" where
  "NoteDetailAPIView_update e s url_slug slug_field content_field last_modified_field =
     (case get_object s url_slug of
        Inl ex \<Rightarrow> (handle_exception ex, s)
      | Inr instance \<Rightarrow>
          (case NoteViewSerializer_is_valid slug_field content_field last_modified_field of
             Inl errs \<Rightarrow> (Response 400 (Some ''Failed to update note. !'') (Errors errs), s)
           | Inr (v, c, m) \<Rightarrow>
               (case NoteViewSerializer_update e s instance (Some c) m of
                  (Inl ex, s') \<Rightarrow> (handle_exception ex, s')
                | (Inr saved, s') \<Rightarrow>
                    (Response 200 (Some ''Note updated successfully. :)'')
                       (Data [(''slug'', slug (snd saved)), (''content'', content (snd saved)),
                              (''last_modified_by_user'', last_modified_by_user (snd saved))]),
                     s'))))"

text \<open>SharedNoteAPIView.create (views.py 275-295).\<close>

definition SharedNoteAPIView_create ::
  "env \<Rightarrow> db \<Rightarrow> string option \<Rightarrow> string option \<Rightarrow> string list option \<Rightarrow> outcome \<times> db" where
  "SharedNoteAPIView_create e s note_field shared_by_field shared_with_field =
     (case SharedNoteSerializer_is_valid note_field shared_by_field shared_with_field of
        Inl errs \<Rightarrow> (Response 400 (Some ''Failed to Share Note !'') (Errors errs), s)
      | Inr (n, b, w) \<Rightarrow>
          (case SharedNoteSerializer_create e s n b w of
             (Inl ex, s') \<Rightarrow> (handle_exception ex, s')
           | (Inr created, s') \<Rightarrow>
               (Response 201 (Some ''Note Shared successfull. :)'') (SharedData n b w), s')))"

text \<open>
  NoteHistorySerializer (serializers.py 271-309): one ledger row as the view shows it.
  \<open>strftime\<close> is \<^verbatim>\<open>timestamp.strftime('%d-%m-%Y at %I:%M %p')\<close>.
\<close>

definition digits2 :: "nat \<Rightarrow> string" where
  "digits2 k = [char_of (48 + k div 10 mod 10), char_of (48 + k mod 10)]"

definition strftime :: "datetime \<Rightarrow> string" where
  "strftime d =
     digits2 (dt_day d) @ ''-'' @ digits2 (dt_month d) @ ''-''
     @ digits2 (dt_year d div 100) @ digits2 (dt_year d mod 100) @ '' at ''
     @ digits2 (if dt_hour d mod 12 = 0 then 12 else dt_hour d mod 12) @ '':''
     @ digits2 (dt_minute d) @ (if dt_hour d < 12 then '' AM'' else '' PM'')"

definition NoteHistorySerializer_to_representation ::
  "db \<Rightarrow> NoteHistory \<Rightarrow> exn + (string \<times> string) list" where
  "NoteHistorySerializer_to_representation s h =
     (if note_id h < length (Note_objects s) then
        (case objects_get (NotesUser_filter_userslug s (updated_by_user h)) of
           Inl ex \<Rightarrow> Inl ex
         | Inr u \<Rightarrow>
             Inr [(''note_slug'', slug (Note_objects s ! note_id h)),
                  (''original_content'', original_content h),
                  (''updated_content'', updated_content h),
                  (''modified_by'', email u),
                  (''modified_time'', strftime (timestamp h))])
      else Inl DoesNotExist)"

fun to_representation_many :: "db \<Rightarrow> NoteHistory list \<Rightarrow> exn + (string \<times> string) list list" where
  "to_representation_many s [] = Inr []"
| "to_representation_many s (h # hs) =
     (case NoteHistorySerializer_to_representation s h of
        Inl ex \<Rightarrow> Inl ex
      | Inr x \<Rightarrow> (case to_representation_many s hs of Inl ex \<Rightarrow> Inl ex | Inr xs \<Rightarrow> Inr (x # xs)))"

text \<open>
  NoteVersionHistoryAPIView (views.py 297-316) is a \<^verbatim>\<open>ListAPIView\<close> over
  \<^verbatim>\<open>queryset = NoteHistory.objects.all()\<close>. The class defines neither \<^verbatim>\<open>get_queryset\<close> nor a
  filter, so the framework lists the whole queryset: the slug of the URL is received and
  not used.
\<close>

definition NoteVersionHistoryAPIView_get :: "db \<Rightarrow> string \<Rightarrow> outcome" where
  "NoteVersionHistoryAPIView_get s url_slug =
     (case to_representation_many s (NoteHistory_objects s) of
        Inl ex \<Rightarrow> handle_exception ex
      | Inr items \<Rightarrow> Response 200 None (Listing items))"

section \<open>A run of the application\<close>

text \<open>
  The states that the theorems below evaluate the code on, each obtained from the empty
  database by the operations themselves: a user registers with \<open>a@x.com\<close>, creates the note
  \<open>hello\<close>, and updates it to \<open>hello world\<close>; then the user creates a second note \<open>other\<close>
  and updates it to \<open>other 2\<close>.
\<close>

definition t0 :: datetime where
  "t0 = \<lparr>dt_year = 2024, dt_month = 3, dt_day = 9, dt_hour = 13, dt_minute = 5\<rparr>"

definition env_user :: env where
  "env_user = \<lparr>uuid4_hex = ''0123456789ab4def8123456789abcdef'', now = t0\<rparr>"

definition env_a :: env where
  "env_a = \<lparr>uuid4_hex = ''a1b2c3d4e5f64a7b8c9d0e1f2a3b4c5d'', now = t0\<rparr>"

definition env_b :: env where
  "env_b = \<lparr>uuid4_hex = ''b7c8d9e0f1a24b3c9d4e5f6a7b8c9d0e'', now = t0\<rparr>"

definition db0 :: db where
  "db0 = \<lparr>NotesUser_objects = [], Note_objects = [], NoteHistory_objects = [],
           SharedNote_objects = []\<rparr>"

definition registration :: "string \<Rightarrow> create_user_kwargs" where
  "registration address =
     UserRegistrationSerializer_validate
       \<lparr>reg_email = address, reg_password = ''secret'', reg_first_name = None,
        reg_last_name = None\<rparr>"

definition db1 :: db where
  "db1 = snd (UserRegistrationSerializer_create env_user db0 (registration ''a@x.com''))"

definition db2 :: db where
  "db2 = snd (NoteSerializer_create env_a db1 ''0123456789'' ''hello'')"

definition note_a :: Note where
  "note_a = \<lparr>slug = ''a1b2c3d4e'', created_by_user = ''0123456789'',
              last_modified_by_user = ''0123456789'', content = ''hello'', created_at = t0\<rparr>"

definition db3 :: db where
  "db3 = snd (NoteViewSerializer_update env_a db2 (0, note_a) (Some ''hello world'')
                ''0123456789'')"

definition db4 :: db where
  "db4 = snd (NoteSerializer_create env_b db3 ''0123456789'' ''other'')"

definition note_b :: Note where
  "note_b = \<lparr>slug = ''b7c8d9e0f'', created_by_user = ''0123456789'',
              last_modified_by_user = ''0123456789'', content = ''other'', created_at = t0\<rparr>"

definition db5 :: db where
  "db5 = snd (NoteViewSerializer_update env_b db4 (1, note_b) (Some ''other 2'')
                ''0123456789'')"

text \<open>The grant that sharing the first note with one user and one unknown slug stores.\<close>

definition grant_a :: SharedNote where
  "grant_a = \<lparr>shared_note_id = 0, shared_by = ''0123456789'', shared_with = [''0123456789''],
               shared_at = t0\<rparr>"

text \<open>A registration with an address whose domain has a capital letter, on the empty database.\<close>

definition user_x :: NotesUser where
  "user_x = \<lparr>userslug = ''0123456789'', username = ''a@X.com'', email = ''a@x.com'',
              first_name = [], last_name = []\<rparr>"

definition db_x :: db where
  "db_x = snd (UserRegistrationSerializer_create env_user db0 (registration ''a@X.com''))"

section \<open>Properties\<close>

subsection \<open>The run of the application\<close>

text \<open>The calls of the run succeed, and these are the states they lead to.\<close>

lemma db3_value:
  "db3 = \<lparr>NotesUser_objects =
            [\<lparr>userslug = ''0123456789'', username = ''a@x.com'', email = ''a@x.com'',
              first_name = [], last_name = []\<rparr>],
          Note_objects = [note_a\<lparr>content := ''hello world''\<rparr>],
          NoteHistory_objects =
            [\<lparr>note_id = 0, original_content = ''hello'', updated_content = ''hello world'',
              updated_by_user = ''0123456789'', timestamp = t0\<rparr>],
          SharedNote_objects = []\<rparr>"
  by code_simp

lemma db5_value:
  "db5 = \<lparr>NotesUser_objects =
            [\<lparr>userslug = ''0123456789'', username = ''a@x.com'', email = ''a@x.com'',
              first_name = [], last_name = []\<rparr>],
          Note_objects = [note_a\<lparr>content := ''hello world''\<rparr>, note_b\<lparr>content := ''other 2''\<rparr>],
          NoteHistory_objects =
            [\<lparr>note_id = 0, original_content = ''hello'', updated_content = ''hello world'',
              updated_by_user = ''0123456789'', timestamp = t0\<rparr>,
             \<lparr>note_id = 1, original_content = ''other'', updated_content = ''other 2'',
              updated_by_user = ''0123456789'', timestamp = t0\<rparr>],
          SharedNote_objects = []\<rparr>"
  by code_simp

lemma run_of_the_application:
  "UserRegistrationSerializer_create env_user db0 (registration ''a@x.com'')
     = (Inr \<lparr>userslug = ''0123456789'', username = ''a@x.com'', email = ''a@x.com'',
             first_name = [], last_name = []\<rparr>, db1)"
  "NoteSerializer_create env_a db1 ''0123456789'' ''hello'' = (Inr (0, note_a), db2)"
  "NoteViewSerializer_update env_a db2 (0, note_a) (Some ''hello world'') ''0123456789''
     = (Inr (0, note_a\<lparr>content := ''hello world''\<rparr>), db3)"
  "NoteSerializer_create env_b db3 ''0123456789'' ''other'' = (Inr (1, note_b), db4)"
  "get_object db4 ''b7c8d9e0f'' = Inr (1, note_b)"
  "NoteViewSerializer_update env_b db4 (1, note_b) (Some ''other 2'') ''0123456789''
     = (Inr (1, note_b\<lparr>content := ''other 2''\<rparr>), db5)"
  by code_simp+

lemma history_after_one_update:
  "NoteVersionHistoryAPIView_get db3 ''a1b2c3d4e'' =
     Response 200 None (Listing
       [[(''note_slug'', ''a1b2c3d4e''), (''original_content'', ''hello''),
         (''updated_content'', ''hello world''), (''modified_by'', ''a@x.com''),
         (''modified_time'', ''09-03-2024 at 01:05 PM'')]])"
  by code_simp


subsection \<open>Queries\<close>

lemma exists_filter_userslug:
  "exists (NotesUser_filter_userslug s v) \<longleftrightarrow> (\<exists>u \<in> set (NotesUser_objects s). userslug u = v)"
  by (auto simp: exists_def NotesUser_filter_userslug_def filter_empty_conv)

lemma objects_get_Inr: "objects_get q = Inr x \<longleftrightarrow> q = [x]"
  by (auto simp: objects_get_def split: list.splits)

lemma objects_get_empty: "objects_get [] = Inl DoesNotExist"
  by (simp add: objects_get_def)

lemma filter_singleton:
  assumes "filter P xs = [x]"
  shows "x \<in> set xs" and "P x" and "\<And>y. y \<in> set xs \<Longrightarrow> P y \<Longrightarrow> y = x"
proof -
  have eq: "set (filter P xs) = {x}" using assms by simp
  then show "x \<in> set xs" and "P x" by auto
  fix y assume "y \<in> set xs" "P y"
  then have "y \<in> set (filter P xs)" by simp
  then have "y \<in> set [x]" by (simp only: assms)
  then show "y = x" by simp
qed

lemma Note_filter_slug_singleton:
  assumes "Note_filter_slug s v = [(i, n)]"
  shows "i < length (Note_objects s)" and "Note_objects s ! i = n" and "slug n = v"
    and "\<And>j. j < length (Note_objects s) \<Longrightarrow> slug (Note_objects s ! j) = v \<Longrightarrow> j = i"
proof -
  let ?P = "\<lambda>(i, n). slug n = v"
  from assms have f: "filter ?P (enumerate 0 (Note_objects s)) = [(i, n)]"
    by (simp add: Note_filter_slug_def)
  from filter_singleton(1)[OF f] show "i < length (Note_objects s)" and "Note_objects s ! i = n"
    by (auto simp: in_set_enumerate_eq)
  from filter_singleton(2)[OF f] show "slug n = v" by simp
  fix j assume j: "j < length (Note_objects s)" "slug (Note_objects s ! j) = v"
  then have "(j, Note_objects s ! j) \<in> set (enumerate 0 (Note_objects s))"
    by (simp add: in_set_enumerate_eq)
  from filter_singleton(3)[OF f this] j show "j = i" by simp
qed

lemma get_object_Inr: "get_object s v = Inr x \<longleftrightarrow> Note_filter_slug s v = [x]"
  by (auto simp: get_object_def objects_get_def split: list.splits sum.splits exn.splits)

lemma first_filter_userslug:
  assumes "\<exists>u \<in> set (NotesUser_objects s). userslug u = v"
  shows "\<exists>u. first (NotesUser_filter_userslug s v) = Some u \<and> userslug u = v
             \<and> u \<in> set (NotesUser_objects s)"
proof -
  from assms have "NotesUser_filter_userslug s v \<noteq> []"
    by (auto simp: NotesUser_filter_userslug_def filter_empty_conv)
  then obtain u us where q: "NotesUser_filter_userslug s v = u # us"
    by (cases "NotesUser_filter_userslug s v") auto
  then have "u \<in> set (filter (\<lambda>u. userslug u = v) (NotesUser_objects s))"
    by (simp add: NotesUser_filter_userslug_def)
  then show ?thesis using q by (auto simp: first_def)
qed

subsection \<open>Updating a note\<close>

text \<open>
  Saving the instance that \<open>get_object\<close> has read for a slug, with that slug unchanged,
  rewrites its row: no slug is generated, and the slug is no other row's.
\<close>

lemma Note_save_existing:
  assumes "get_object s v = Inr (i, n)" and "v \<noteq> []" and "slug n' = slug n"
  shows "Note_save e s (Some i) n' =
           Inr ((i, n'), s\<lparr>Note_objects := (Note_objects s)[i := n']\<rparr>)"
proof -
  from assms(1) have f: "Note_filter_slug s v = [(i, n)]" by (simp add: get_object_Inr)
  note facts = Note_filter_slug_singleton[OF f]
  have g: "generate_slug e n' = n'"
    using facts(3) assms(2,3) by (simp add: generate_slug_def)
  have "\<not> (\<exists>j \<in> set [0..<length (Note_objects s)].
              j \<noteq> i \<and> slug (Note_objects s ! j) = slug n')"
    using facts(3,4) assms(3) by auto
  then show ?thesis using facts(1) g by (simp add: Note_save_def Let_def)
qed

lemma update_resolved:
  assumes "get_object s v = Inr (i, n)" and "v \<noteq> []"
    and "\<exists>u \<in> set (NotesUser_objects s). userslug u = m"
    and "n' = n\<lparr>content := (case content_data of Some c \<Rightarrow> c | None \<Rightarrow> content n),
                 last_modified_by_user := m\<rparr>"
  shows "NoteViewSerializer_update e s (i, n) content_data m =
           (Inr (i, n'),
            s\<lparr>Note_objects := (Note_objects s)[i := n'],
              NoteHistory_objects := NoteHistory_objects s @
                [\<lparr>note_id = i, original_content = content n, updated_content = content n',
                  updated_by_user = m, timestamp = now e\<rparr>]\<rparr>)"
proof -
  from first_filter_userslug[OF assms(3)] obtain u where
    u: "first (NotesUser_filter_userslug s m) = Some u" "userslug u = m" by blast
  have ex: "exists (NotesUser_filter_userslug s m)"
    using assms(3) by (simp add: exists_filter_userslug)
  have sv: "Note_save e s (Some i) n' =
      Inr ((i, n'), s\<lparr>Note_objects := (Note_objects s)[i := n']\<rparr>)"
    by (rule Note_save_existing[OF assms(1,2)]) (simp add: assms(4))
  show ?thesis
    using ex u sv assms(4)
    by (cases content_data)
       (simp_all add: NoteViewSerializer_update_def NoteHistory_objects_create_def)
qed

text \<open>
  C2. An update whose editor slug resolves to no user raises the validation error
  "Invalid user slug provided." and leaves the whole database as it was: the note keeps its
  content and its last modifier, and the revision ledger gets no entry.
\<close>

theorem update_unknown_editor:
  assumes "\<not> (\<exists>u \<in> set (NotesUser_objects s). userslug u = modified_user_slug)"
  shows "NoteViewSerializer_update e s instance content_data modified_user_slug =
           (Inl (ValidationError [''Invalid user slug provided.'']), s)"
  using assms by (simp add: NoteViewSerializer_update_def exists_filter_userslug)

theorem update_unknown_editor_witness:
  "\<not> (\<exists>u \<in> set (NotesUser_objects db2). userslug u = ''ffffffffff'')
   \<and> NoteViewSerializer_update env_a db2 (0, note_a) (Some ''hello world'') ''ffffffffff'' =
       (Inl (ValidationError [''Invalid user slug provided.'']), db2)"
proof -
  have h: "\<not> (\<exists>u \<in> set (NotesUser_objects db2). userslug u = ''ffffffffff'')"
    by code_simp
  show ?thesis using h update_unknown_editor[OF h] by simp
qed

text \<open>
  C3. For a note that exists (the one \<open>get_object\<close> reads for its slug; the URL pattern passes
  no empty slug), any new content and an editor slug that resolves, the update stores the
  new content and the editor as last modifier in the note's row, and appends exactly one
  entry to the ledger: it refers to the note, its original content is the content before
  the call, its updated content is the new content, and its user is the editor. Nothing
  compares the new content with the old one, so the entry is appended when they are equal.
\<close>

theorem update_sets_content:
  assumes "get_object s v = Inr (i, n)" and "v \<noteq> []"
    and "\<exists>u \<in> set (NotesUser_objects s). userslug u = m"
  shows "NoteViewSerializer_update e s (i, n) (Some c) m =
           (Inr (i, n\<lparr>content := c, last_modified_by_user := m\<rparr>),
            s\<lparr>Note_objects := (Note_objects s)[i := n\<lparr>content := c, last_modified_by_user := m\<rparr>],
              NoteHistory_objects := NoteHistory_objects s @
                [\<lparr>note_id = i, original_content = content n, updated_content = c,
                  updated_by_user = m, timestamp = now e\<rparr>]\<rparr>)"
  using update_resolved[OF assms, of "n\<lparr>content := c, last_modified_by_user := m\<rparr>" "Some c" e]
  by simp

theorem update_sets_content_witness:
  "get_object db2 ''a1b2c3d4e'' = Inr (0, note_a) \<and> ''a1b2c3d4e'' \<noteq> []
   \<and> (\<exists>u \<in> set (NotesUser_objects db2). userslug u = ''0123456789'')
   \<and> NoteViewSerializer_update env_a db2 (0, note_a) (Some ''hello'') ''0123456789'' =
       (Inr (0, note_a\<lparr>content := ''hello'', last_modified_by_user := ''0123456789''\<rparr>),
        db2\<lparr>Note_objects := (Note_objects db2)
               [0 := note_a\<lparr>content := ''hello'', last_modified_by_user := ''0123456789''\<rparr>],
            NoteHistory_objects := NoteHistory_objects db2 @
              [\<lparr>note_id = 0, original_content = content note_a, updated_content = ''hello'',
                updated_by_user = ''0123456789'', timestamp = now env_a\<rparr>]\<rparr>)
   \<and> content note_a = ''hello''"
proof -
  have h1: "get_object db2 ''a1b2c3d4e'' = Inr (0, note_a)" by code_simp
  have h2: "''a1b2c3d4e'' \<noteq> []" by simp
  have h3: "\<exists>u \<in> set (NotesUser_objects db2). userslug u = ''0123456789''" by code_simp
  have h4: "content note_a = ''hello''" by (simp add: note_a_def)
  show ?thesis
    using h1 h2 h3 h4 update_sets_content[OF h1 h2 h3, of env_a "''hello''"] by simp
qed

lemma update_unresolved:
  assumes "\<not> (\<exists>u \<in> set (NotesUser_objects s). userslug u = m)"
  shows "fst (NoteViewSerializer_update e s instance content_data m) =
           Inl (ValidationError [''Invalid user slug provided.''])"
  using assms by (simp add: NoteViewSerializer_update_def exists_filter_userslug)

lemma map_list_update_same:
  assumes "i < length xs" and "f y = f (xs ! i)"
  shows "map f (xs[i := y]) = map f xs"
  using assms by (simp add: map_update list_update_same_conv)

text \<open>
  C8. A successful update of an existing note (the one \<open>get_object\<close> reads for the slug of
  the URL, which is never empty) leaves the note's slug, its creator and its creation time as
  they were: the row is rewritten in place with the same three values, and so the slugs,
  creators and creation times of all notes are those of before.
\<close>

theorem update_keeps_identity:
  assumes "get_object s v = Inr (i, n)" and "v \<noteq> []"
    and "NoteViewSerializer_update e s (i, n) content_data m = (Inr (j, n'), s')"
  shows "j = i \<and> slug n' = slug n \<and> created_by_user n' = created_by_user n
         \<and> created_at n' = created_at n
         \<and> Note_objects s' = (Note_objects s)[i := n']
         \<and> map slug (Note_objects s') = map slug (Note_objects s)
         \<and> map created_by_user (Note_objects s') = map created_by_user (Note_objects s)
         \<and> map created_at (Note_objects s') = map created_at (Note_objects s)"
proof -
  have r: "\<exists>u \<in> set (NotesUser_objects s). userslug u = m"
  proof (rule ccontr)
    assume "\<not> ?thesis"
    from update_unresolved[OF this, of e "(i, n)" content_data] assms(3) show False by simp
  qed
  define k where "k = n\<lparr>content := (case content_data of Some c \<Rightarrow> c | None \<Rightarrow> content n),
                         last_modified_by_user := m\<rparr>"
  from update_resolved[OF assms(1,2) r k_def, of e] assms(3)
  have eq: "j = i" "n' = k" "Note_objects s' = (Note_objects s)[i := k]" by auto
  from assms(1) have f: "Note_filter_slug s v = [(i, n)]" by (simp add: get_object_Inr)
  note facts = Note_filter_slug_singleton(1,2)[OF f]
  have k: "slug k = slug n" "created_by_user k = created_by_user n" "created_at k = created_at n"
    by (simp_all add: k_def)
  show ?thesis
    using eq k facts by (simp add: map_list_update_same)
qed

theorem update_keeps_identity_witness:
  "get_object db2 ''a1b2c3d4e'' = Inr (0, note_a) \<and> ''a1b2c3d4e'' \<noteq> []
   \<and> NoteViewSerializer_update env_a db2 (0, note_a) (Some ''hello world'') ''0123456789'' =
       (Inr (0, note_a\<lparr>content := ''hello world''\<rparr>), db3)
   \<and> slug (note_a\<lparr>content := ''hello world''\<rparr>) = slug note_a
   \<and> created_by_user (note_a\<lparr>content := ''hello world''\<rparr>) = created_by_user note_a
   \<and> created_at (note_a\<lparr>content := ''hello world''\<rparr>) = created_at note_a
   \<and> map slug (Note_objects db3) = map slug (Note_objects db2)
   \<and> map created_by_user (Note_objects db3) = map created_by_user (Note_objects db2)
   \<and> map created_at (Note_objects db3) = map created_at (Note_objects db2)"
proof -
  have h1: "get_object db2 ''a1b2c3d4e'' = Inr (0, note_a)" by code_simp
  have h2: "''a1b2c3d4e'' \<noteq> []" by simp
  have h3: "NoteViewSerializer_update env_a db2 (0, note_a) (Some ''hello world'') ''0123456789''
              = (Inr (0, note_a\<lparr>content := ''hello world''\<rparr>), db3)"
    by code_simp
  show ?thesis using h1 h2 h3 update_keeps_identity[OF h1 h2 h3] by blast
qed

subsection \<open>Creating a note\<close>

lemma Note_save_insert:
  assumes "Note_save e s None n = Inr ((i, r), s')"
  shows "i = length (Note_objects s)" and "r = (generate_slug e n)\<lparr>created_at := now e\<rparr>"
    and "s' = s\<lparr>Note_objects := Note_objects s @ [r]\<rparr>"
  using assms by (auto simp: Note_save_def Let_def split: if_splits)

lemma objects_get_userslug:
  assumes "objects_get (NotesUser_filter_userslug s v) = Inr u"
  shows "userslug u = v" and "u \<in> set (NotesUser_objects s)"
proof -
  from assms have "filter (\<lambda>u. userslug u = v) (NotesUser_objects s) = [u]"
    by (simp add: objects_get_Inr NotesUser_filter_userslug_def)
  from filter_singleton(1,2)[OF this] show "userslug u = v" and "u \<in> set (NotesUser_objects s)"
    by auto
qed

lemma Note_save_insert_fresh:
  assumes "\<not> (\<exists>m \<in> set (Note_objects s). slug m = take 9 (uuid4_hex e))"
    and "slug n = []"
  shows "Note_save e s None n =
           Inr ((length (Note_objects s), n\<lparr>slug := take 9 (uuid4_hex e), created_at := now e\<rparr>),
                s\<lparr>Note_objects := Note_objects s @
                    [n\<lparr>slug := take 9 (uuid4_hex e), created_at := now e\<rparr>]\<rparr>)"
  using assms by (simp add: Note_save_def Let_def generate_slug_def)

lemma create_resolving_owner:
  assumes "objects_get (NotesUser_filter_userslug s user_slug) = Inr u"
    and "\<not> (\<exists>m \<in> set (Note_objects s). slug m = take 9 (uuid4_hex e))"
  shows "NoteSerializer_create e s user_slug content_data =
           (Inr (length (Note_objects s),
                 \<lparr>slug = take 9 (uuid4_hex e), created_by_user = user_slug,
                  last_modified_by_user = user_slug, content = content_data,
                  created_at = now e\<rparr>),
            s\<lparr>Note_objects := Note_objects s @
                [\<lparr>slug = take 9 (uuid4_hex e), created_by_user = user_slug,
                  last_modified_by_user = user_slug, content = content_data,
                  created_at = now e\<rparr>]\<rparr>)"
proof -
  from objects_get_userslug(1)[OF assms(1)] have u: "userslug u = user_slug" .
  have "Note_objects_create e s user_slug content_data user_slug =
          Inr ((length (Note_objects s),
                \<lparr>slug = take 9 (uuid4_hex e), created_by_user = user_slug,
                 last_modified_by_user = user_slug, content = content_data,
                 created_at = now e\<rparr>),
               s\<lparr>Note_objects := Note_objects s @
                   [\<lparr>slug = take 9 (uuid4_hex e), created_by_user = user_slug,
                     last_modified_by_user = user_slug, content = content_data,
                     created_at = now e\<rparr>]\<rparr>)"
    unfolding Note_objects_create_def
    using Note_save_insert_fresh[OF assms(2), of
        "\<lparr>slug = [], created_by_user = user_slug, last_modified_by_user = user_slug,
          content = content_data, created_at = now e\<rparr>"]
    by simp
  then show ?thesis using assms(1) u by (simp add: NoteSerializer_create_def)
qed

lemma validate_user_slug_resolving:
  assumes "\<exists>u \<in> set (NotesUser_objects s). userslug u = user_slug"
  shows "validate_user_slug s user_slug = Inr user_slug"
  using assms by (simp add: validate_user_slug_def exists_filter_userslug)

text \<open>
  C4. \<open>validate_user_slug\<close> refuses an owner slug that resolves to no user with the
  validation error "User does not exist", and accepts one that resolves. When \<open>create\<close>
  succeeds, the new note has the given content, and its creator and its last modifier are
  both the owner, who exists; the note is appended to the table of notes and nothing else
  changes: the ledger is the one of before, so it has no entry for the new note (no entry of
  the ledger refers to a note that does not exist yet). And \<open>create\<close> does succeed whenever
  the owner resolves and the generated slug is no other note's: it stores exactly the note
  with the generated slug, the given content, the owner as creator and last modifier, and
  the current time.
\<close>

theorem create_note_result:
  "(\<not> (\<exists>u \<in> set (NotesUser_objects s). userslug u = user_slug) \<longrightarrow>
      validate_user_slug s user_slug = Inl (ValidationError [''User does not exist'']))
   \<and> (NoteSerializer_create e s user_slug content_data = (Inr (i, n), s') \<longrightarrow>
        content n = content_data \<and> created_by_user n = user_slug
        \<and> last_modified_by_user n = user_slug
        \<and> (\<exists>u \<in> set (NotesUser_objects s). userslug u = user_slug)
        \<and> i = length (Note_objects s)
        \<and> s' = s\<lparr>Note_objects := Note_objects s @ [n]\<rparr>
        \<and> NoteHistory_objects s' = NoteHistory_objects s
        \<and> ((\<forall>h \<in> set (NoteHistory_objects s). note_id h < length (Note_objects s)) \<longrightarrow>
             filter (\<lambda>h. note_id h = i) (NoteHistory_objects s') = []))
   \<and> ((\<exists>u \<in> set (NotesUser_objects s). userslug u = user_slug) \<longrightarrow>
        validate_user_slug s user_slug = Inr user_slug)
   \<and> (objects_get (NotesUser_filter_userslug s user_slug) = Inr owner
        \<and> \<not> (\<exists>m \<in> set (Note_objects s). slug m = take 9 (uuid4_hex e)) \<longrightarrow>
        NoteSerializer_create e s user_slug content_data =
          (Inr (length (Note_objects s),
                \<lparr>slug = take 9 (uuid4_hex e), created_by_user = user_slug,
                 last_modified_by_user = user_slug, content = content_data,
                 created_at = now e\<rparr>),
           s\<lparr>Note_objects := Note_objects s @
               [\<lparr>slug = take 9 (uuid4_hex e), created_by_user = user_slug,
                 last_modified_by_user = user_slug, content = content_data,
                 created_at = now e\<rparr>]\<rparr>))"
proof (intro conjI impI)
  assume "\<not> (\<exists>u \<in> set (NotesUser_objects s). userslug u = user_slug)"
  then show "validate_user_slug s user_slug = Inl (ValidationError [''User does not exist''])"
    by (simp add: validate_user_slug_def exists_filter_userslug)
next
  assume "\<exists>u \<in> set (NotesUser_objects s). userslug u = user_slug"
  then show "validate_user_slug s user_slug = Inr user_slug"
    by (rule validate_user_slug_resolving)
next
  assume "objects_get (NotesUser_filter_userslug s user_slug) = Inr owner
          \<and> \<not> (\<exists>m \<in> set (Note_objects s). slug m = take 9 (uuid4_hex e))"
  then show "NoteSerializer_create e s user_slug content_data =
          (Inr (length (Note_objects s),
                \<lparr>slug = take 9 (uuid4_hex e), created_by_user = user_slug,
                 last_modified_by_user = user_slug, content = content_data,
                 created_at = now e\<rparr>),
           s\<lparr>Note_objects := Note_objects s @
               [\<lparr>slug = take 9 (uuid4_hex e), created_by_user = user_slug,
                 last_modified_by_user = user_slug, content = content_data,
                 created_at = now e\<rparr>]\<rparr>)"
    using create_resolving_owner by blast
next
  assume a: "NoteSerializer_create e s user_slug content_data = (Inr (i, n), s')"
  then obtain u where u: "objects_get (NotesUser_filter_userslug s user_slug) = Inr u"
    by (auto simp: NoteSerializer_create_def split: sum.splits)
  note uf = objects_get_userslug[OF u]
  from a u have sv: "Note_objects_create e s (userslug u) content_data (userslug u) = Inr ((i, n), s')"
    by (auto simp: NoteSerializer_create_def split: sum.splits)
  note ins = Note_save_insert[OF sv[unfolded Note_objects_create_def]]
  show "content n = content_data" using ins(2) by (simp add: generate_slug_def)
  show "created_by_user n = user_slug" using ins(2) uf(1) by (simp add: generate_slug_def)
  show "last_modified_by_user n = user_slug" using ins(2) uf(1) by (simp add: generate_slug_def)
  show "\<exists>u \<in> set (NotesUser_objects s). userslug u = user_slug" using uf by blast
  show i: "i = length (Note_objects s)" by (rule ins(1))
  show s': "s' = s\<lparr>Note_objects := Note_objects s @ [n]\<rparr>" by (rule ins(3))
  show "NoteHistory_objects s' = NoteHistory_objects s" using s' by simp
  show "filter (\<lambda>h. note_id h = i) (NoteHistory_objects s') = []"
    if "\<forall>h \<in> set (NoteHistory_objects s). note_id h < length (Note_objects s)"
    using that i s' by (auto simp: filter_empty_conv)
qed

theorem create_note_result_witness:
  "\<not> (\<exists>u \<in> set (NotesUser_objects db3). userslug u = ''ffffffffff'')
   \<and> validate_user_slug db3 ''ffffffffff'' = Inl (ValidationError [''User does not exist''])
   \<and> NoteSerializer_create env_b db3 ''0123456789'' ''other'' = (Inr (1, note_b), db4)
   \<and> map note_id (NoteHistory_objects db3) = [0] \<and> length (Note_objects db3) = 1
   \<and> content note_b = ''other'' \<and> created_by_user note_b = ''0123456789''
   \<and> last_modified_by_user note_b = ''0123456789''
   \<and> NoteHistory_objects db4 = NoteHistory_objects db3
   \<and> filter (\<lambda>h. note_id h = 1) (NoteHistory_objects db4) = []
   \<and> (\<exists>u \<in> set (NotesUser_objects db3). userslug u = ''0123456789'')
   \<and> validate_user_slug db3 ''0123456789'' = Inr ''0123456789''
   \<and> objects_get (NotesUser_filter_userslug db3 ''0123456789'') =
        Inr \<lparr>userslug = ''0123456789'', username = ''a@x.com'', email = ''a@x.com'',
              first_name = [], last_name = []\<rparr>
   \<and> \<not> (\<exists>m \<in> set (Note_objects db3). slug m = take 9 (uuid4_hex env_b))
   \<and> NoteSerializer_create env_b db3 ''0123456789'' ''other'' =
        (Inr (length (Note_objects db3),
              \<lparr>slug = take 9 (uuid4_hex env_b), created_by_user = ''0123456789'',
               last_modified_by_user = ''0123456789'', content = ''other'',
               created_at = now env_b\<rparr>),
         db3\<lparr>Note_objects := Note_objects db3 @
               [\<lparr>slug = take 9 (uuid4_hex env_b), created_by_user = ''0123456789'',
                 last_modified_by_user = ''0123456789'', content = ''other'',
                 created_at = now env_b\<rparr>]\<rparr>)
   \<and> take 9 (uuid4_hex env_b) = ''b7c8d9e0f''"
proof -
  have h1: "\<not> (\<exists>u \<in> set (NotesUser_objects db3). userslug u = ''ffffffffff'')"
    by code_simp
  have h2: "NoteSerializer_create env_b db3 ''0123456789'' ''other'' = (Inr (1, note_b), db4)"
    by code_simp
  have h3: "\<forall>h \<in> set (NoteHistory_objects db3). note_id h < length (Note_objects db3)"
    by code_simp
  have h4: "map note_id (NoteHistory_objects db3) = [0] \<and> length (Note_objects db3) = 1"
    by code_simp
  have h5: "\<exists>u \<in> set (NotesUser_objects db3). userslug u = ''0123456789''"
    by code_simp
  have h6: "objects_get (NotesUser_filter_userslug db3 ''0123456789'') =
        Inr \<lparr>userslug = ''0123456789'', username = ''a@x.com'', email = ''a@x.com'',
              first_name = [], last_name = []\<rparr>"
    by code_simp
  have h7: "\<not> (\<exists>m \<in> set (Note_objects db3). slug m = take 9 (uuid4_hex env_b))"
    by code_simp
  have h8: "take 9 (uuid4_hex env_b) = ''b7c8d9e0f''" by code_simp
  note inst = create_note_result[of db3 _ env_b "''other''" 1 note_b db4
      "\<lparr>userslug = ''0123456789'', username = ''a@x.com'', email = ''a@x.com'',
        first_name = [], last_name = []\<rparr>"]
  from inst[of "''ffffffffff''"] h1
  have a: "validate_user_slug db3 ''ffffffffff'' = Inl (ValidationError [''User does not exist''])"
    by blast
  from inst[of "''0123456789''"] h2 h3
  have b: "content note_b = ''other'' \<and> created_by_user note_b = ''0123456789''
      \<and> last_modified_by_user note_b = ''0123456789''
      \<and> NoteHistory_objects db4 = NoteHistory_objects db3
      \<and> filter (\<lambda>h. note_id h = 1) (NoteHistory_objects db4) = []"
    by blast
  from inst[of "''0123456789''"] h5
  have c: "validate_user_slug db3 ''0123456789'' = Inr ''0123456789''"
    by blast
  from inst[of "''0123456789''"] h6 h7
  have d: "NoteSerializer_create env_b db3 ''0123456789'' ''other'' =
        (Inr (length (Note_objects db3),
              \<lparr>slug = take 9 (uuid4_hex env_b), created_by_user = ''0123456789'',
               last_modified_by_user = ''0123456789'', content = ''other'',
               created_at = now env_b\<rparr>),
         db3\<lparr>Note_objects := Note_objects db3 @
               [\<lparr>slug = take 9 (uuid4_hex env_b), created_by_user = ''0123456789'',
                 last_modified_by_user = ''0123456789'', content = ''other'',
                 created_at = now env_b\<rparr>]\<rparr>)"
    by blast
  show ?thesis using h1 h2 h4 h5 h6 h7 h8 a b c d by blast
qed

subsection \<open>Sharing a note\<close>

lemma add_recipient_fields:
  "shared_note_id (add_recipient s g v) = shared_note_id g"
  "shared_by (add_recipient s g v) = shared_by g"
  "shared_at (add_recipient s g v) = shared_at g"
  by (simp_all add: add_recipient_def split: option.splits)

lemma first_filter_None:
  "first (NotesUser_filter_userslug s v) = None \<longleftrightarrow> \<not> (\<exists>u \<in> set (NotesUser_objects s). userslug u = v)"
proof -
  have "first (NotesUser_filter_userslug s v) = None \<longleftrightarrow> NotesUser_filter_userslug s v = []"
    by (simp add: first_def split: list.splits)
  then show ?thesis
    by (simp add: NotesUser_filter_userslug_def filter_empty_conv)
qed

lemma first_filter_Some:
  assumes "first (NotesUser_filter_userslug s v) = Some u"
  shows "userslug u = v" and "u \<in> set (NotesUser_objects s)"
proof -
  from assms obtain us where "filter (\<lambda>u. userslug u = v) (NotesUser_objects s) = u # us"
    by (auto simp: first_def NotesUser_filter_userslug_def split: list.splits)
  then have "u \<in> set (filter (\<lambda>u. userslug u = v) (NotesUser_objects s))" by simp
  then show "userslug u = v" and "u \<in> set (NotesUser_objects s)" by auto
qed

lemma add_recipient_set:
  "set (shared_with (add_recipient s g v)) =
     set (shared_with g) \<union> {w. w = v \<and> (\<exists>u \<in> set (NotesUser_objects s). userslug u = w)}"
proof (cases "first (NotesUser_filter_userslug s v)")
  case None
  then have "\<not> (\<exists>u \<in> set (NotesUser_objects s). userslug u = v)"
    by (simp add: first_filter_None)
  then show ?thesis by (auto simp: add_recipient_def None)
next
  case (Some u)
  from first_filter_Some[OF Some] show ?thesis
    using Some by (auto simp: add_recipient_def)
qed

lemma add_recipient_distinct:
  "distinct (shared_with g) \<Longrightarrow> distinct (shared_with (add_recipient s g v))"
  by (auto simp: add_recipient_def split: option.splits)

lemma foldl_add_recipient:
  "set (shared_with (foldl (add_recipient s) g vs)) =
     set (shared_with g) \<union> {w \<in> set vs. \<exists>u \<in> set (NotesUser_objects s). userslug u = w}"
  "shared_note_id (foldl (add_recipient s) g vs) = shared_note_id g"
  "shared_by (foldl (add_recipient s) g vs) = shared_by g"
  "shared_at (foldl (add_recipient s) g vs) = shared_at g"
  "distinct (shared_with g) \<Longrightarrow> distinct (shared_with (foldl (add_recipient s) g vs))"
proof (induction vs arbitrary: g)
  case Nil
  { case 1 show ?case by simp }
  { case 2 show ?case by simp }
  { case 3 show ?case by simp }
  { case 4 show ?case by simp }
  { case 5 then show ?case by simp }
next
  case (Cons v vs)
  { case 1 show ?case by (auto simp: Cons.IH(1) add_recipient_set) }
  { case 2 show ?case by (simp add: Cons.IH(2) add_recipient_fields) }
  { case 3 show ?case by (simp add: Cons.IH(3) add_recipient_fields) }
  { case 4 show ?case by (simp add: Cons.IH(4) add_recipient_fields) }
  { case 5 then show ?case by (simp add: Cons.IH(5) add_recipient_distinct) }
qed

text \<open>
  C6. When sharing succeeds, the recipients of the stored grant are exactly the entries of
  \<open>shared_with_slugs\<close> that resolve to a user, each once; an entry that resolves to no user
  is passed over. Sharing succeeds whenever the note and the sharer resolve, whatever the
  recipient slugs are: an unknown recipient raises nothing. With one known and one unknown
  recipient, the grant's only recipient is the known user (the instance that follows).
\<close>

theorem share_recipients:
  "(SharedNoteSerializer_create e s note_slug shared_by_slug shared_with_slugs = (Inr (k, g), s')
      \<longrightarrow> set (shared_with g) =
            {w \<in> set shared_with_slugs. \<exists>u \<in> set (NotesUser_objects s). userslug u = w}
          \<and> distinct (shared_with g)
          \<and> s' = s\<lparr>SharedNote_objects := SharedNote_objects s @ [g]\<rparr>)
   \<and> ((\<exists>a. objects_get (Note_filter_slug s note_slug) = Inr a)
        \<and> (\<exists>b. objects_get (NotesUser_filter_userslug s shared_by_slug) = Inr b)
      \<longrightarrow> (\<exists>k g s'. SharedNoteSerializer_create e s note_slug shared_by_slug shared_with_slugs
                      = (Inr (k, g), s')))"
proof (intro conjI impI)
  assume a: "SharedNoteSerializer_create e s note_slug shared_by_slug shared_with_slugs
               = (Inr (k, g), s')"
  then have "set (shared_with g) =
          {w \<in> set shared_with_slugs. \<exists>u \<in> set (NotesUser_objects s). userslug u = w}
        \<and> distinct (shared_with g)
        \<and> s' = s\<lparr>SharedNote_objects := SharedNote_objects s @ [g]\<rparr>"
    by (auto simp: SharedNoteSerializer_create_def Let_def foldl_add_recipient
             split: sum.splits)
  then show "set (shared_with g) =
          {w \<in> set shared_with_slugs. \<exists>u \<in> set (NotesUser_objects s). userslug u = w}"
    and "distinct (shared_with g)"
    and "s' = s\<lparr>SharedNote_objects := SharedNote_objects s @ [g]\<rparr>"
    by blast+
next
  assume "(\<exists>a. objects_get (Note_filter_slug s note_slug) = Inr a)
          \<and> (\<exists>b. objects_get (NotesUser_filter_userslug s shared_by_slug) = Inr b)"
  then show "\<exists>k g s'. SharedNoteSerializer_create e s note_slug shared_by_slug shared_with_slugs
                        = (Inr (k, g), s')"
    by (auto simp: SharedNoteSerializer_create_def Let_def)
qed

theorem share_recipients_witness:
  "SharedNoteSerializer_create env_a db3 ''a1b2c3d4e'' ''0123456789''
       [''0123456789'', ''ffffffffff'']
     = (Inr (0, grant_a), db3\<lparr>SharedNote_objects := [grant_a]\<rparr>)
   \<and> (\<exists>a. objects_get (Note_filter_slug db3 ''a1b2c3d4e'') = Inr a)
   \<and> (\<exists>b. objects_get (NotesUser_filter_userslug db3 ''0123456789'') = Inr b)
   \<and> \<not> (\<exists>u \<in> set (NotesUser_objects db3). userslug u = ''ffffffffff'')
   \<and> shared_with grant_a = [''0123456789'']
   \<and> set (shared_with grant_a) =
        {w \<in> set [''0123456789'', ''ffffffffff''].
           \<exists>u \<in> set (NotesUser_objects db3). userslug u = w}"
proof -
  have h1: "SharedNoteSerializer_create env_a db3 ''a1b2c3d4e'' ''0123456789''
              [''0123456789'', ''ffffffffff'']
            = (Inr (0, grant_a), db3\<lparr>SharedNote_objects := [grant_a]\<rparr>)"
    by code_simp
  have h2: "\<exists>a. objects_get (Note_filter_slug db3 ''a1b2c3d4e'') = Inr a"
  proof
    show "objects_get (Note_filter_slug db3 ''a1b2c3d4e'')
            = Inr (0, note_a\<lparr>content := ''hello world''\<rparr>)"
      by code_simp
  qed
  have h3: "\<exists>b. objects_get (NotesUser_filter_userslug db3 ''0123456789'') = Inr b"
  proof
    show "objects_get (NotesUser_filter_userslug db3 ''0123456789'')
            = Inr \<lparr>userslug = ''0123456789'', username = ''a@x.com'', email = ''a@x.com'',
                   first_name = [], last_name = []\<rparr>"
      by code_simp
  qed
  have h4: "\<not> (\<exists>u \<in> set (NotesUser_objects db3). userslug u = ''ffffffffff'')"
    by code_simp
  have h5: "shared_with grant_a = [''0123456789'']" by (simp add: grant_a_def)
  from share_recipients[of env_a db3 "''a1b2c3d4e''" "''0123456789''"
      "[''0123456789'', ''ffffffffff'']" 0 grant_a "db3\<lparr>SharedNote_objects := [grant_a]\<rparr>"] h1
  have "set (shared_with grant_a) =
        {w \<in> set [''0123456789'', ''ffffffffff''].
           \<exists>u \<in> set (NotesUser_objects db3). userslug u = w}"
    by blast
  then show ?thesis using h1 h2 h3 h4 h5 by blast
qed


subsection \<open>The content field of the requests\<close>

lemma CharField_blank:
  "CharField (Some []) = Inl (ValidationError [''This field may not be blank.''])"
  by (simp add: CharField_def run_validation_def)

lemma CharField_Inr: "CharField data = Inr c \<Longrightarrow> c \<noteq> []"
  by (auto simp: CharField_def run_validation_def split: option.splits if_splits)

lemma NoteSerializer_is_valid_blank:
  "\<exists>errs. NoteSerializer_is_valid s user_slug_field (Some []) = Inl errs
          \<and> (''content'', [''This field may not be blank.'']) \<in> set errs"
  by (simp add: NoteSerializer_is_valid_def CharField_blank errors_of_def Let_def
           split: sum.splits)

lemma NoteViewSerializer_is_valid_blank:
  "\<exists>errs. NoteViewSerializer_is_valid slug_field (Some []) last_modified_field = Inl errs
          \<and> (''content'', [''This field may not be blank.'']) \<in> set errs"
  by (simp add: NoteViewSerializer_is_valid_def CharField_blank errors_of_def Let_def
           split: sum.splits)

lemma NoteSerializer_is_valid_Inr:
  "NoteSerializer_is_valid s user_slug_field content_field = Inr (u, c) \<Longrightarrow> c \<noteq> []"
  by (auto simp: NoteSerializer_is_valid_def Let_def CharField_Inr split: sum.splits)

lemma NoteViewSerializer_is_valid_Inr:
  "NoteViewSerializer_is_valid slug_field content_field last_modified_field = Inr (v, c, m)
     \<Longrightarrow> c \<noteq> []"
  by (auto simp: NoteViewSerializer_is_valid_def Let_def CharField_Inr split: sum.splits)

lemma handle_exception_status:
  "handle_exception ex = Response k msg p \<Longrightarrow> k = 400 \<or> k = 404"
  by (cases ex) (auto simp: handle_exception_def)

lemma Note_save_content:
  assumes "Note_save e s pk n = Inr ((i, r), s')"
  shows "content r = content n" and "i < length (Note_objects s')"
    and "Note_objects s' ! i = r"
  using assms
  by (auto simp: Note_save_def Let_def generate_slug_def nth_append
           split: option.splits if_splits)

lemma Note_save_key:
  assumes "Note_save e s (Some i) n = Inr ((j, r), s')" and "i < length (Note_objects s)"
  shows "j = i"
  using assms by (auto simp: Note_save_def Let_def split: if_splits)

lemma create_view_success:
  assumes "NoteCreateAPIView_create e s user_slug_field content_field
             = (Response 201 msg p, s')"
  shows "\<exists>n. Note_objects s' = Note_objects s @ [n] \<and> content n \<noteq> []"
proof -
  from assms obtain u c where
    v: "NoteSerializer_is_valid s user_slug_field content_field = Inr (u, c)"
    by (auto simp: NoteCreateAPIView_create_def split: sum.splits)
  from assms v obtain i n where c: "NoteSerializer_create e s u c = (Inr (i, n), s')"
    by (auto simp: NoteCreateAPIView_create_def split: sum.splits prod.splits
             dest: handle_exception_status)
  then obtain b where sv: "Note_objects_create e s b c b = Inr ((i, n), s')"
    by (auto simp: NoteSerializer_create_def split: sum.splits)
  from Note_save_insert[OF sv[unfolded Note_objects_create_def]]
  have "Note_objects s' = Note_objects s @ [n]" "content n = c"
    by (simp_all add: generate_slug_def)
  then show ?thesis using NoteSerializer_is_valid_Inr[OF v] by blast
qed

lemma update_view_success:
  assumes "NoteDetailAPIView_update e s url_slug slug_field content_field last_modified_field
             = (Response 200 msg p, s')"
  shows "\<exists>i n. get_object s url_slug = Inr (i, n) \<and> i < length (Note_objects s')
               \<and> content (Note_objects s' ! i) \<noteq> []"
proof -
  from assms obtain i n where g: "get_object s url_slug = Inr (i, n)"
    by (auto simp: NoteDetailAPIView_update_def split: sum.splits
             dest: handle_exception_status)
  from g have i: "i < length (Note_objects s)"
    using Note_filter_slug_singleton(1) by (simp add: get_object_Inr)
  from assms g obtain v c m where
    v: "NoteViewSerializer_is_valid slug_field content_field last_modified_field = Inr (v, c, m)"
    by (auto simp: NoteDetailAPIView_update_def split: sum.splits)
  from assms g v obtain j r where
    u: "NoteViewSerializer_update e s (i, n) (Some c) m = (Inr (j, r), s')"
    by (auto simp: NoteDetailAPIView_update_def split: sum.splits prod.splits
             dest: handle_exception_status)
  then obtain k s1 where
    sv: "Note_save e s (Some i) k = Inr ((j, r), s1)" and k: "content k = c"
    and s': "Note_objects s' = Note_objects s1"
    by (auto simp: NoteViewSerializer_update_def Let_def NoteHistory_objects_create_def
             split: if_splits option.splits sum.splits)
  from Note_save_content[OF sv] Note_save_key[OF sv i] k s'
  have "i < length (Note_objects s')" "content (Note_objects s' ! i) = c" by simp_all
  then show ?thesis using g NoteViewSerializer_is_valid_Inr[OF v] by blast
qed

text \<open>
  C10. A request to create a note, or to update an existing note, whose content is the
  empty string is answered 400 with the error "This field may not be blank." on the field
  \<open>content\<close>, and the database is the one of before (for an update this holds whether the
  note exists or not). Hence a request that is answered with success never stores an empty
  content: the created note, and the updated note, have a content that is not empty.
\<close>

theorem blank_content_rejected:
  "(\<exists>errs. NoteCreateAPIView_create e s user_slug_field (Some [])
             = (Response 400 (Some ''Failed to create Note !'') (Errors errs), s)
           \<and> (''content'', [''This field may not be blank.'']) \<in> set errs)
   \<and> (get_object s url_slug = Inr instance \<longrightarrow>
        (\<exists>errs. NoteDetailAPIView_update e s url_slug slug_field (Some []) last_modified_field
                 = (Response 400 (Some ''Failed to update note. !'') (Errors errs), s)
               \<and> (''content'', [''This field may not be blank.'']) \<in> set errs))
   \<and> snd (NoteDetailAPIView_update e s url_slug slug_field (Some []) last_modified_field) = s
   \<and> (NoteCreateAPIView_create e s user_slug_field content_field = (Response 201 msg p, s')
        \<longrightarrow> (\<exists>n. Note_objects s' = Note_objects s @ [n] \<and> content n \<noteq> []))
   \<and> (NoteDetailAPIView_update e s url_slug slug_field content_field last_modified_field
          = (Response 200 msg p, s')
        \<longrightarrow> (\<exists>i n. get_object s url_slug = Inr (i, n) \<and> i < length (Note_objects s')
                   \<and> content (Note_objects s' ! i) \<noteq> []))"
proof (intro conjI impI)
  from NoteSerializer_is_valid_blank[of s user_slug_field]
  show "\<exists>errs. NoteCreateAPIView_create e s user_slug_field (Some [])
             = (Response 400 (Some ''Failed to create Note !'') (Errors errs), s)
           \<and> (''content'', [''This field may not be blank.'']) \<in> set errs"
    by (auto simp: NoteCreateAPIView_create_def)
next
  assume "get_object s url_slug = Inr instance"
  with NoteViewSerializer_is_valid_blank[of slug_field last_modified_field]
  show "\<exists>errs. NoteDetailAPIView_update e s url_slug slug_field (Some []) last_modified_field
                 = (Response 400 (Some ''Failed to update note. !'') (Errors errs), s)
               \<and> (''content'', [''This field may not be blank.'']) \<in> set errs"
    by (auto simp: NoteDetailAPIView_update_def)
next
  from NoteViewSerializer_is_valid_blank[of slug_field last_modified_field]
  show "snd (NoteDetailAPIView_update e s url_slug slug_field (Some []) last_modified_field) = s"
    by (auto simp: NoteDetailAPIView_update_def split: sum.splits)
next
  assume "NoteCreateAPIView_create e s user_slug_field content_field = (Response 201 msg p, s')"
  then show "\<exists>n. Note_objects s' = Note_objects s @ [n] \<and> content n \<noteq> []"
    by (rule create_view_success)
next
  assume "NoteDetailAPIView_update e s url_slug slug_field content_field last_modified_field
            = (Response 200 msg p, s')"
  then show "\<exists>i n. get_object s url_slug = Inr (i, n) \<and> i < length (Note_objects s')
                   \<and> content (Note_objects s' ! i) \<noteq> []"
    by (rule update_view_success)
qed

theorem blank_content_rejected_witness:
  "get_object db2 ''a1b2c3d4e'' = Inr (0, note_a)
   \<and> (\<exists>errs. NoteDetailAPIView_update env_a db2 ''a1b2c3d4e'' (Some ''a1b2c3d4e'') (Some [])
                (Some ''0123456789'')
              = (Response 400 (Some ''Failed to update note. !'') (Errors errs), db2)
            \<and> (''content'', [''This field may not be blank.'']) \<in> set errs)
   \<and> NoteCreateAPIView_create env_a db1 (Some ''0123456789'') (Some ''hello'')
       = (Response 201 (Some ''Note created successfully :)'')
            (Data [(''user_slug'', ''0123456789''), (''content'', ''hello'')]), db2)
   \<and> (\<exists>n. Note_objects db2 = Note_objects db1 @ [n] \<and> content n \<noteq> [])
   \<and> NoteDetailAPIView_update env_a db2 ''a1b2c3d4e'' (Some ''a1b2c3d4e'')
         (Some ''hello world'') (Some ''0123456789'')
       = (Response 200 (Some ''Note updated successfully. :)'')
            (Data [(''slug'', ''a1b2c3d4e''), (''content'', ''hello world''),
                   (''last_modified_by_user'', ''0123456789'')]), db3)
   \<and> (\<exists>i n. get_object db2 ''a1b2c3d4e'' = Inr (i, n) \<and> i < length (Note_objects db3)
             \<and> content (Note_objects db3 ! i) \<noteq> [])"
proof -
  have h1: "get_object db2 ''a1b2c3d4e'' = Inr (0, note_a)" by code_simp
  have h2: "NoteCreateAPIView_create env_a db1 (Some ''0123456789'') (Some ''hello'')
       = (Response 201 (Some ''Note created successfully :)'')
            (Data [(''user_slug'', ''0123456789''), (''content'', ''hello'')]), db2)"
    by code_simp
  have h3: "NoteDetailAPIView_update env_a db2 ''a1b2c3d4e'' (Some ''a1b2c3d4e'')
         (Some ''hello world'') (Some ''0123456789'')
       = (Response 200 (Some ''Note updated successfully. :)'')
            (Data [(''slug'', ''a1b2c3d4e''), (''content'', ''hello world''),
                   (''last_modified_by_user'', ''0123456789'')]), db3)"
    by code_simp
  from blank_content_rejected[of env_a db2 _ "''a1b2c3d4e''" "(0, note_a)"
      "Some ''a1b2c3d4e''" "Some ''0123456789''"] h1
  have a: "\<exists>errs. NoteDetailAPIView_update env_a db2 ''a1b2c3d4e'' (Some ''a1b2c3d4e'') (Some [])
                (Some ''0123456789'')
              = (Response 400 (Some ''Failed to update note. !'') (Errors errs), db2)
            \<and> (''content'', [''This field may not be blank.'']) \<in> set errs"
    by blast
  from blank_content_rejected[of env_a db1 "Some ''0123456789''" _ _ _ _ "Some ''hello''"
      _ _ db2] h2
  have b: "\<exists>n. Note_objects db2 = Note_objects db1 @ [n] \<and> content n \<noteq> []"
    by blast
  from blank_content_rejected[of env_a db2 _ "''a1b2c3d4e''" _ "Some ''a1b2c3d4e''"
      "Some ''0123456789''" "Some ''hello world''" _ _ db3] h3
  have c: "\<exists>i n. get_object db2 ''a1b2c3d4e'' = Inr (i, n) \<and> i < length (Note_objects db3)
             \<and> content (Note_objects db3 ! i) \<noteq> []"
    by blast
  show ?thesis using h1 h2 h3 a b c by blast
qed

subsection \<open>The version history\<close>

lemma history_ignores_slug:
  "NoteVersionHistoryAPIView_get s v = NoteVersionHistoryAPIView_get s w"
  by (simp add: NoteVersionHistoryAPIView_get_def)

lemma to_representation_many_length:
  "to_representation_many s hs = Inr xs \<Longrightarrow> length xs = length hs"
  by (induction hs arbitrary: xs) (auto split: sum.splits)

text \<open>
  C1. The view of the version history does not select the entries of the note of the URL.
  In the run above, the first note has been updated once and the second note once: the
  history asked for the first note's slug has two entries, and the second is the entry of
  the second note. (The ledger itself holds one entry for the first note.)
\<close>

theorem history_lists_other_notes:
  "NoteVersionHistoryAPIView_get db5 ''a1b2c3d4e'' =
     Response 200 None (Listing
       [[(''note_slug'', ''a1b2c3d4e''), (''original_content'', ''hello''),
         (''updated_content'', ''hello world''), (''modified_by'', ''a@x.com''),
         (''modified_time'', ''09-03-2024 at 01:05 PM'')],
        [(''note_slug'', ''b7c8d9e0f''), (''original_content'', ''other''),
         (''updated_content'', ''other 2''), (''modified_by'', ''a@x.com''),
         (''modified_time'', ''09-03-2024 at 01:05 PM'')]])
   \<and> get_object db5 ''a1b2c3d4e'' = Inr (0, note_a\<lparr>content := ''hello world''\<rparr>)
   \<and> length (filter (\<lambda>h. note_id h = 0) (NoteHistory_objects db5)) = 1"
  by code_simp

subsection \<open>Sharing with no recipient, sharing an unknown note\<close>

lemma share_unresolved:
  "Note_filter_slug s note_slug = [] \<Longrightarrow>
     SharedNoteSerializer_create e s note_slug shared_by_slug ws = (Inl DoesNotExist, s)"
  "objects_get (Note_filter_slug s note_slug) = Inr a \<Longrightarrow>
   NotesUser_filter_userslug s shared_by_slug = [] \<Longrightarrow>
     SharedNoteSerializer_create e s note_slug shared_by_slug ws = (Inl DoesNotExist, s)"
  by (simp_all add: SharedNoteSerializer_create_def objects_get_empty)

lemma share_failure_keeps_state:
  "SharedNoteSerializer_create e s note_slug shared_by_slug ws = (Inl ex, s') \<Longrightarrow> s' = s"
  by (auto simp: SharedNoteSerializer_create_def Let_def split: sum.splits)

text \<open>
  C7. Sharing a note with an empty list of recipients, or with recipients of which none
  resolves, succeeds and stores a grant whose set of recipients is empty.
\<close>

theorem share_stores_empty_grant:
  "SharedNoteSerializer_create env_a db3 ''a1b2c3d4e'' ''0123456789'' []
     = (Inr (0, grant_a\<lparr>shared_with := []\<rparr>),
        db3\<lparr>SharedNote_objects := [grant_a\<lparr>shared_with := []\<rparr>]\<rparr>)
   \<and> SharedNoteSerializer_create env_a db3 ''a1b2c3d4e'' ''0123456789'' [''ffffffffff'']
     = (Inr (0, grant_a\<lparr>shared_with := []\<rparr>),
        db3\<lparr>SharedNote_objects := [grant_a\<lparr>shared_with := []\<rparr>]\<rparr>)
   \<and> SharedNoteAPIView_create env_a db3 (Some ''a1b2c3d4e'') (Some ''0123456789'') (Some [])
     = (Response 201 (Some ''Note Shared successfull. :)'')
          (SharedData ''a1b2c3d4e'' ''0123456789'' []),
        db3\<lparr>SharedNote_objects := [grant_a\<lparr>shared_with := []\<rparr>]\<rparr>)"
  by code_simp

text \<open>
  C9. Sharing a note whose slug resolves to no note, or by a sharer whose slug resolves to
  no user, stores no grant; the exception DoesNotExist leaves the view uncaught, where a
  failed validation is answered with a 400 response.
\<close>

theorem share_unknown_note_uncaught:
  "SharedNoteAPIView_create env_a db3 (Some ''fffffffff'') (Some ''0123456789'')
       (Some [''0123456789''])
     = (Uncaught DoesNotExist, db3)
   \<and> SharedNoteAPIView_create env_a db3 (Some ''a1b2c3d4e'') (Some ''ffffffffff'')
       (Some [''0123456789''])
     = (Uncaught DoesNotExist, db3)"
  by code_simp

subsection \<open>Registering an address twice\<close>

lemma NotesUser_save_stored:
  assumes "NotesUser_save e s u = Inr (u', s')"
  shows "u' \<in> set (NotesUser_objects s')" and "email u' = email u"
proof -
  define k where "k = (if userslug u = [] then u\<lparr>userslug := take 10 (uuid4_hex e)\<rparr> else u)"
  have ek: "email k = email u" by (simp add: k_def)
  from assms have r: "u' = k"
    and s': "s' = s\<lparr>NotesUser_objects :=
                  map (\<lambda>v. if userslug v = userslug k then k else v) (NotesUser_objects s)\<rparr>
             \<and> (\<exists>v \<in> set (NotesUser_objects s). userslug v = userslug k)
            \<or> s' = s\<lparr>NotesUser_objects := NotesUser_objects s @ [k]\<rparr>"
    unfolding NotesUser_save_def Let_def k_def[symmetric]
    by (auto split: if_splits)
  show "email u' = email u" using r ek by simp
  from s' show "u' \<in> set (NotesUser_objects s')"
  proof
    assume a: "s' = s\<lparr>NotesUser_objects :=
                  map (\<lambda>v. if userslug v = userslug k then k else v) (NotesUser_objects s)\<rparr>
             \<and> (\<exists>v \<in> set (NotesUser_objects s). userslug v = userslug k)"
    then obtain v where "v \<in> set (NotesUser_objects s)" "userslug v = userslug k" by blast
    then have "k \<in> (\<lambda>v. if userslug v = userslug k then k else v) ` set (NotesUser_objects s)"
      by force
    then show ?thesis using a r by simp
  next
    assume "s' = s\<lparr>NotesUser_objects := NotesUser_objects s @ [k]\<rparr>"
    then show ?thesis using r by simp
  qed
qed

lemma duplicate_normalised_email_rejected:
  assumes "UserRegistrationSerializer_create e s kw = (Inr u, s')"
    and "normalize_email (reg_email kw) = reg_email kw"
  shows "validate_email s' (reg_email kw) = Inl (ValidationError [''Email must be unique''])"
proof -
  from assms(1) obtain k where
    sv: "NotesUser_save e s k = Inr (u, s')" and k: "email k = normalize_email (reg_email kw)"
    by (auto simp: UserRegistrationSerializer_create_def create_user_def
             split: if_splits sum.splits)
  from NotesUser_save_stored[OF sv] k assms(2)
  have "u \<in> set (NotesUser_objects s')" "email u = reg_email kw" by simp_all
  then have "filter (\<lambda>u. email u = reg_email kw) (NotesUser_objects s') \<noteq> []"
    by (auto simp: filter_empty_conv)
  then show ?thesis by (simp add: validate_email_def exists_def)
qed

text \<open>
  C5. The address \<open>a@X.com\<close> is registered on the empty database: \<open>create_user\<close> stores it
  as \<open>a@x.com\<close>, with the user name \<open>a@X.com\<close>. A second registration of \<open>a@X.com\<close> passes
  \<open>validate_email\<close>, which compares the address as given with the stored ones, and fails in
  \<open>create\<close> on the unique columns with IntegrityError; no user is stored.
\<close>

theorem second_registration_not_rejected:
  "validate_email db0 ''a@X.com'' = Inr ''a@X.com''
   \<and> UserRegistrationSerializer_create env_user db0 (registration ''a@X.com'')
        = (Inr user_x, db_x)
   \<and> NotesUser_objects db_x = [user_x]
   \<and> validate_email db_x ''a@X.com'' = Inr ''a@X.com''
   \<and> UserRegistrationSerializer_create env_a db_x (registration ''a@X.com'')
        = (Inl IntegrityError, db_x)"
  by code_simp

subsection \<open>The same failures, seen from the views\<close>

text \<open>
  An update by an unknown editor and a creation for an unknown owner are answered 400, and
  the database is the one of before.
\<close>

lemma update_view_unknown_editor:
  assumes "get_object s url_slug = Inr instance"
    and "NoteViewSerializer_is_valid slug_field content_field last_modified_field = Inr (v, c, m)"
    and "\<not> (\<exists>u \<in> set (NotesUser_objects s). userslug u = m)"
  shows "NoteDetailAPIView_update e s url_slug slug_field content_field last_modified_field
           = (Response 400 None (Detail [''Invalid user slug provided.'']), s)"
  using assms
  by (simp add: NoteDetailAPIView_update_def NoteViewSerializer_update_def
        exists_filter_userslug handle_exception_def)

lemma create_view_unknown_owner:
  assumes "SlugField user_slug_field = Inr v"
    and "\<not> (\<exists>u \<in> set (NotesUser_objects s). userslug u = v)"
  shows "\<exists>errs. NoteCreateAPIView_create e s user_slug_field content_field
                  = (Response 400 (Some ''Failed to create Note !'') (Errors errs), s)
               \<and> (''user_slug'', [''User does not exist'']) \<in> set errs"
  using assms
  by (auto simp: NoteCreateAPIView_create_def NoteSerializer_is_valid_def Let_def
        validate_user_slug_def exists_filter_userslug errors_of_def split: sum.splits)

end
